theory Spec2Isabelle
  imports Complex_Main "HOL-Library.Multiset"
begin

section \<open>Sword and Shield: the session and round-resolution engine\<close>

text \<open>
  A shallow embedding of the game server (the Node.js file with the Socket.io handlers).
  Conventions of the embedding:
  \<^item> A JavaScript number is an IEEE double. \<open>parseFloat\<close> returns the double nearest to
    the decimal it reads, as a \<open>real\<close>, so the range check of the handler decides as the
    server does. The arithmetic on scores is that of the \<open>real\<close>s: the rounding error of
    the floating-point operations is not represented. Timestamps and the round counter
    are integers.
  \<^item> A JavaScript string is modelled as \<open>string\<close>, one \<open>char\<close> per code unit.
  \<^item> The \<open>players\<close> Map is an association list in insertion order, as a JavaScript
    Map iterates in insertion order; \<open>map_set\<close> overwrites in place or appends.
  \<^item> Every handler takes the server state and returns the messages it emits together
    with the new state.
\<close>

subsection \<open>Data model\<close>

datatype phase = lobby | round_input | round_resolution | final_standings

record submission =
  sx :: int
  sz :: real

record PlayerData =
  socketId :: "string option"
  username :: string
  connected :: bool
  disconnectedAt :: "int option"
  cumulativeScore :: real
  currentRoundSubmission :: "submission option"

record RoundResult =
  r_username :: string
  r_x :: int
  r_z :: real
  r_k :: nat
  r_Y :: real
  r_baseScore :: real
  r_penalty :: real
  r_roundScore :: real

type_synonym players_map = "(string \<times> PlayerData) list"

record server =
  players :: players_map
  gameState :: phase
  currentRound :: int
  lastRoundResults :: "RoundResult list"
  broadcastTimer :: bool

definition initial_server :: server where
  "initial_server =
     \<lparr>players = [], gameState = lobby, currentRound = 1, lastRoundResults = [],
      broadcastTimer = False\<rparr>"

definition RECONNECT_GRACE_MS :: int where
  "RECONNECT_GRACE_MS = 10 * 60 * 1000"

subsection \<open>The players Map\<close>

definition map_get :: "players_map \<Rightarrow> string \<Rightarrow> PlayerData option" where
  "map_get ps k = map_of ps k"

fun map_set :: "players_map \<Rightarrow> string \<Rightarrow> PlayerData \<Rightarrow> players_map" where
  "map_set [] k v = [(k, v)]"
| "map_set ((k', v') # ps) k v =
     (if k' = k then (k, v) # ps else (k', v') # map_set ps k v)"

subsection \<open>Outgoing messages\<close>

record LeaderboardEntry =
  lb_username :: string
  lb_cumulativeScore :: real
  lb_connected :: bool

record payload =
  p_phase :: phase
  p_currentRound :: int
  p_leaderboard :: "LeaderboardEntry list"
  p_playerCount :: nat
  p_submittedCount :: nat
  p_roundResults :: "RoundResult list"

text \<open>
  \<open>Submission_ack r x z\<close> stands for the acknowledgement whose text is
  "Round r choice received." with the fields \<open>x\<close> and \<open>z\<close>.
\<close>

datatype message =
    Error_message string
  | Submission_ack int int real
  | Game_state_update payload

text \<open>\<open>To_socket sid m\<close> is \<open>socket.emit\<close> on the socket \<open>sid\<close>; \<open>To_all m\<close> is \<open>io.emit\<close>.\<close>

datatype emission = To_socket string message | To_all message

fun phase_name :: "phase \<Rightarrow> string" where
  "phase_name lobby = ''lobby''"
| "phase_name round_input = ''round_input''"
| "phase_name round_resolution = ''round_resolution''"
| "phase_name final_standings = ''final_standings''"

subsection \<open>Building the broadcast payload\<close>

text \<open>\<open>Math.round(v * 100) / 100\<close>; \<open>Math.round\<close> rounds halves towards plus infinity.\<close>

definition round2 :: "real \<Rightarrow> real" where
  "round2 v = real_of_int \<lfloor>v * 100 + 1 / 2\<rfloor> / 100"

definition leaderboard_entry :: "PlayerData \<Rightarrow> LeaderboardEntry" where
  "leaderboard_entry p =
     \<lparr>lb_username = username p,
      lb_cumulativeScore = round2 (cumulativeScore p),
      lb_connected = connected p\<rparr>"

text \<open>
  \<open>Array.prototype.sort\<close> with the comparator \<open>(a, b) => b.cumulativeScore - a.cumulativeScore\<close>:
  a stable sort, descending in the score of the entry. It is modelled by the stable
  insertion sort of the library on the negated score.
\<close>

definition sort_leaderboard :: "LeaderboardEntry list \<Rightarrow> LeaderboardEntry list" where
  "sort_leaderboard es = sort_key (\<lambda>e. - lb_cumulativeScore e) es"

definition display_result :: "RoundResult \<Rightarrow> RoundResult" where
  "display_result r =
     \<lparr>r_username = r_username r, r_x = r_x r, r_z = r_z r, r_k = r_k r,
      r_Y = round2 (r_Y r), r_baseScore = round2 (r_baseScore r),
      r_penalty = round2 (r_penalty r), r_roundScore = round2 (r_roundScore r)\<rparr>"

definition buildGameStatePayload :: "server \<Rightarrow> payload" where
  "buildGameStatePayload s =
     (let leaderboard = sort_leaderboard (map (\<lambda>(k, p). leaderboard_entry p) (players s));
          connectedCount = length (filter (\<lambda>(k, p). connected p) (players s));
          submittedCount =
            (if gameState s = round_input
             then length (filter (\<lambda>(k, p). connected p \<and> currentRoundSubmission p \<noteq> None)
                           (players s))
             else 0)
      in \<lparr>p_phase = gameState s,
          p_currentRound = currentRound s,
          p_leaderboard = leaderboard,
          p_playerCount = connectedCount,
          p_submittedCount = submittedCount,
          p_roundResults =
            (if gameState s = round_resolution \<or> gameState s = final_standings
             then map display_result (lastRoundResults s) else [])\<rparr>)"

subsection \<open>Broadcast throttle\<close>

text \<open>
  \<open>broadcastTimer\<close> records whether a coalesced broadcast is scheduled. The scheduled
  callback is the event \<open>broadcast_timer_fires\<close>.
\<close>

definition broadcastThrottled :: "server \<Rightarrow> server" where
  "broadcastThrottled s = (if broadcastTimer s then s else s\<lparr>broadcastTimer := True\<rparr>)"

definition broadcast_timer_fires :: "server \<Rightarrow> emission list \<times> server" where
  "broadcast_timer_fires s =
     (if broadcastTimer s
      then (let s' = s\<lparr>broadcastTimer := False\<rparr>
            in ([To_all (Game_state_update (buildGameStatePayload s'))], s'))
      else ([], s))"

definition broadcastImmediate :: "server \<Rightarrow> emission list \<times> server" where
  "broadcastImmediate s =
     (let s' = (if broadcastTimer s then s\<lparr>broadcastTimer := False\<rparr> else s)
      in ([To_all (Game_state_update (buildGameStatePayload s'))], s'))"

subsection \<open>Resolving a round\<close>

text \<open>
  A submitter is a copy of the player's data taken when the loop reaches the player,
  together with the submission it holds (the loop keeps only players whose
  \<open>currentRoundSubmission\<close> is not null).
\<close>

type_synonym submitter = "PlayerData \<times> submission"

fun submitters_of :: "players_map \<Rightarrow> submitter list" where
  "submitters_of [] = []"
| "submitters_of ((k, d) # ps) =
     (case currentRoundSubmission d of
        None \<Rightarrow> submitters_of ps
      | Some sub \<Rightarrow> (d, sub) # submitters_of ps)"

text \<open>
  The frequency map: an absent key reads as 0 through \<open>freqMap[x] || 0\<close>, so the map
  is a total function that is 0 where nothing was counted.
\<close>

fun build_freqMap :: "(int \<Rightarrow> nat) \<Rightarrow> submitter list \<Rightarrow> (int \<Rightarrow> nat)" where
  "build_freqMap freqMap [] = freqMap"
| "build_freqMap freqMap ((d, sub) # ss) =
     build_freqMap (freqMap(sx sub := freqMap (sx sub) + 1)) ss"

definition score_submitter :: "(int \<Rightarrow> nat) \<Rightarrow> nat \<Rightarrow> submitter \<Rightarrow> RoundResult" where
  "score_submitter freqMap N s =
     (let x = sx (snd s);
          z = sz (snd s);
          k = freqMap x;
          Y = (real k / real N) * 100;
          baseScore = real_of_int x * (1 - (Y / 100));
          penalty = \<bar>Y - z\<bar> / 10;
          roundScore = baseScore - penalty
      in \<lparr>r_username = username (fst s), r_x = x, r_z = z, r_k = k, r_Y = Y,
          r_baseScore = baseScore, r_penalty = penalty, r_roundScore = roundScore\<rparr>)"

text \<open>
  Accumulating into the running total: \<open>players.get(s.username)\<close>, and if an entry is
  found, \<open>playerData.cumulativeScore += roundScore\<close>.
\<close>

definition accumulate :: "players_map \<Rightarrow> string \<Rightarrow> real \<Rightarrow> players_map" where
  "accumulate ps uname roundScore =
     (case map_get ps uname of
        None \<Rightarrow> ps
      | Some playerData \<Rightarrow>
          map_set ps uname
            (playerData\<lparr>cumulativeScore := cumulativeScore playerData + roundScore\<rparr>))"

text \<open>
  The scoring loop (\<open>submitters.map\<close>): each step produces one result and adds the round
  score to the live entry found under the submitter's username.
\<close>

fun score_loop ::
  "(int \<Rightarrow> nat) \<Rightarrow> nat \<Rightarrow> submitter list \<Rightarrow> players_map \<Rightarrow> RoundResult list \<times> players_map" where
  "score_loop freqMap N [] ps = ([], ps)"
| "score_loop freqMap N (s # ss) ps =
     (let r = score_submitter freqMap N s;
          ps' = accumulate ps (username (fst s)) (r_roundScore r);
          (rs, ps'') = score_loop freqMap N ss ps'
      in (r # rs, ps''))"

definition resolveRound :: "server \<Rightarrow> server" where
  "resolveRound s =
     (let submitters = submitters_of (players s);
          N = length submitters
      in if N = 0 then s\<lparr>lastRoundResults := []\<rparr>
         else (let freqMap = build_freqMap (\<lambda>x. 0) submitters;
                   (results, ps) = score_loop freqMap N submitters (players s)
               in s\<lparr>players := ps, lastRoundResults := results\<rparr>))"

subsection \<open>Clearing submissions, resetting the game\<close>

definition clearSubmissions :: "server \<Rightarrow> server" where
  "clearSubmissions s =
     s\<lparr>players := map (\<lambda>(k, d). (k, d\<lparr>currentRoundSubmission := None\<rparr>)) (players s)\<rparr>"

definition resetGame :: "server \<Rightarrow> server" where
  "resetGame s =
     s\<lparr>gameState := lobby, currentRound := 1, lastRoundResults := [],
       players := map (\<lambda>(k, d). (k, d\<lparr>cumulativeScore := 0, currentRoundSubmission := None\<rparr>))
                    (players s)\<rparr>"

subsection \<open>The reaper\<close>

text \<open>
  The test of the sweep. \<open>data.disconnectedAt\<close> is used as a condition: null and the
  number 0 are both falsy.
\<close>

definition stale :: "int \<Rightarrow> PlayerData \<Rightarrow> bool" where
  "stale now d =
     (\<not> connected d \<and>
      (case disconnectedAt d of
         None \<Rightarrow> False
       | Some t \<Rightarrow> t \<noteq> 0 \<and> now - t > RECONNECT_GRACE_MS))"

definition reaper :: "int \<Rightarrow> server \<Rightarrow> emission list \<times> server" where
  "reaper now s =
     (let kept = filter (\<lambda>(k, d). \<not> stale now d) (players s);
          purged = length (players s) - length kept;
          s' = s\<lparr>players := kept\<rparr>
      in if purged > 0 then broadcastImmediate s' else ([], s'))"

subsection \<open>Strings and number parsing\<close>

text \<open>
  White space and line terminators of ECMAScript among the code units below 256:
  tab, line feed, vertical tab, form feed, carriage return, space, no-break space.
\<close>

definition isWhiteSpace :: "char \<Rightarrow> bool" where
  "isWhiteSpace c \<longleftrightarrow>
     c \<in> set [CHR 0x09, CHR 0x0A, CHR 0x0B, CHR 0x0C, CHR 0x0D, CHR 0x20, CHR 0xA0]"

definition trimStart :: "string \<Rightarrow> string" where
  "trimStart str = dropWhile isWhiteSpace str"

definition trim :: "string \<Rightarrow> string" where
  "trim str = rev (dropWhile isWhiteSpace (rev (dropWhile isWhiteSpace str)))"

text \<open>\<open>str.substring(0, n)\<close>.\<close>

definition substring0 :: "nat \<Rightarrow> string \<Rightarrow> string" where
  "substring0 n str = take n str"

definition isDigit :: "char \<Rightarrow> bool" where
  "isDigit c \<longleftrightarrow> c \<in> set ''0123456789''"

definition digitVal :: "char \<Rightarrow> int" where
  "digitVal c = of_char c - 48"

text \<open>The value of a string of decimal digits, read left to right.\<close>

definition decimal :: "string \<Rightarrow> int" where
  "decimal ds = foldl (\<lambda>acc c. 10 * acc + digitVal c) 0 ds"

text \<open>An optional sign: whether it is a minus, and the rest.\<close>

fun stripSign :: "string \<Rightarrow> bool \<times> string" where
  "stripSign [] = (False, [])"
| "stripSign (c # cs) =
     (if c = CHR ''-'' then (True, cs)
      else if c = CHR ''+'' then (False, cs)
      else (False, c # cs))"

text \<open>
  \<open>parseInt(v, 10)\<close> and \<open>parseFloat(v)\<close> first convert their argument to a string; the
  functions below take that string. \<open>parseInt\<close> skips leading white space, reads an
  optional sign and the longest run of decimal digits; with no digit the result is NaN,
  here \<open>None\<close>. The result is the exact integer: it is a double whenever it passes the
  range check of the handler, and rounding a larger integer to a double cannot bring it
  into that range.
\<close>

definition parseInt :: "string \<Rightarrow> int option" where
  "parseInt str =
     (let (neg, S) = stripSign (trimStart str);
          Z = takeWhile isDigit S
      in if Z = [] then None
         else Some ((if neg then - 1 else 1) * decimal Z))"

datatype jsnum = NaN | PosInf | NegInf | Num real

text \<open>
  The Number value of a decimal literal is the double nearest to its mathematical value,
  ties going to the even significand. A double has a significand of 53 bits; the unit in
  its last place is a power of two with an exponent between -1074 and 971; a magnitude
  that rounds to 2 to the 1024 or more is infinite, and one that rounds to 0 is 0. The
  value to round is given as a fraction \<open>a / b\<close> of integers, \<open>a\<close> not negative and \<open>b\<close>
  positive. The doubles 0 and -0 are both the real number 0.
\<close>

function bit_length :: "int \<Rightarrow> nat" where
  "bit_length n = (if n \<le> 0 then 0 else Suc (bit_length (n div 2)))"
  by pat_completeness auto
termination
  by (relation "measure nat") auto

declare bit_length.simps [simp del]

text \<open>The integer nearest to \<open>num / den\<close>, ties to the even one.\<close>

definition round_half_even :: "int \<Rightarrow> int \<Rightarrow> int" where
  "round_half_even num den =
     (let fl = num div den; r = num mod den
      in if 2 * r < den then fl
         else if den < 2 * r then fl + 1
         else if even fl then fl else fl + 1)"

text \<open>
  \<open>e\<close> is the binary exponent of \<open>a / b\<close>, that is \<open>2 ^ e \<le> a / b < 2 ^ (e + 1)\<close>; it is
  the difference \<open>d\<close> of the bit lengths or one less. \<open>q\<close> is the exponent of the unit in
  the last place and \<open>m\<close> the rounded significand.
\<close>

definition toDouble :: "int \<Rightarrow> int \<Rightarrow> jsnum" where
  "toDouble a b =
     (if a \<le> 0 then Num 0
      else (let d = int (bit_length a) - int (bit_length b);
                e = (if b * 2 ^ nat d \<le> a * 2 ^ nat (- d) then d else d - 1);
                q = max (e - 52) (- 1074);
                m = round_half_even (a * 2 ^ nat (- q)) (b * 2 ^ nat q)
            in if q \<ge> 0
               then (if 2 ^ 1024 \<le> m * 2 ^ nat q then PosInf
                     else Num (real_of_int (m * 2 ^ nat q)))
               else Num (real_of_int m / 2 ^ nat (- q))))"

fun negate :: "jsnum \<Rightarrow> jsnum" where
  "negate NaN = NaN"
| "negate PosInf = NegInf"
| "negate NegInf = PosInf"
| "negate (Num r) = Num (- r)"

text \<open>The exponent part \<open>e\<close> or \<open>E\<close>, an optional sign and at least one digit; 0 if absent.\<close>

fun exponentPart :: "string \<Rightarrow> int" where
  "exponentPart [] = 0"
| "exponentPart (c # cs) =
     (if c = CHR ''e'' \<or> c = CHR ''E''
      then (let (eneg, r) = stripSign cs; ds = takeWhile isDigit r
            in if ds = [] then 0
               else (if eneg then - 1 else 1) * decimal ds)
      else 0)"

text \<open>
  \<open>parseFloat\<close> reads the longest prefix that is a decimal literal: an optional sign, then
  \<open>Infinity\<close>, or digits with an optional fraction, or a fraction alone, and an optional
  exponent. The digits \<open>ip\<close> and \<open>fp\<close> with the exponent \<open>e\<close> denote the number
  \<open>decimal (ip @ fp) * 10 ^ (e - length fp)\<close>, and the result is the double nearest to it.
\<close>

definition parseFloat :: "string \<Rightarrow> jsnum" where
  "parseFloat str =
     (let (neg, u) = stripSign (trimStart str)
      in if take 8 u = ''Infinity'' then (if neg then NegInf else PosInf)
         else (let ip = takeWhile isDigit u;
                   r1 = dropWhile isDigit u;
                   (fp, r2) = (case r1 of
                                 [] \<Rightarrow> ([], [])
                               | c # cs \<Rightarrow>
                                   if c = CHR ''.''
                                   then (takeWhile isDigit cs, dropWhile isDigit cs)
                                   else ([], r1))
               in if ip = [] \<and> fp = [] then NaN
                  else (let e = exponentPart r2 - int (length fp);
                            v = toDouble (decimal (ip @ fp) * 10 ^ nat e) (10 ^ nat (- e))
                        in if neg then negate v else v)))"

subsection \<open>Finding a player by socket\<close>

text \<open>The first entry, in insertion order, whose \<open>socketId\<close> is the given one.\<close>

fun findPlayerBySocketId :: "players_map \<Rightarrow> string \<Rightarrow> (string \<times> PlayerData) option" where
  "findPlayerBySocketId [] sid = None"
| "findPlayerBySocketId ((k, d) # ps) sid =
     (if socketId d = Some sid then Some (k, d) else findPlayerBySocketId ps sid)"

subsection \<open>Event handlers\<close>

text \<open>
  \<open>join_lobby\<close>: the payload's \<open>username\<close> is \<open>Some str\<close> when it is a string and \<open>None\<close>
  for a value of any other type.
\<close>

definition cleanName_of :: "string \<Rightarrow> string" where
  "cleanName_of uname = substring0 20 (trim uname)"

definition join_lobby :: "string \<Rightarrow> string option \<Rightarrow> server \<Rightarrow> emission list \<times> server" where
  "join_lobby sid uname s =
     (case uname of
        None \<Rightarrow> ([To_socket sid (Error_message ''A valid username is required.'')], s)
      | Some str \<Rightarrow>
          if str = [] then ([To_socket sid (Error_message ''A valid username is required.'')], s)
          else (let cleanName = cleanName_of str;
                    ps = (case map_get (players s) cleanName of
                            Some existing \<Rightarrow>
                              map_set (players s) cleanName
                                (existing\<lparr>socketId := Some sid, connected := True,
                                          disconnectedAt := None\<rparr>)
                          | None \<Rightarrow>
                              map_set (players s) cleanName
                                \<lparr>socketId = Some sid, username = cleanName, connected = True,
                                 disconnectedAt = None, cumulativeScore = 0,
                                 currentRoundSubmission = None\<rparr>)
                in broadcastImmediate (s\<lparr>players := ps\<rparr>)))"

text \<open>
  \<open>submit_choice\<close>: \<open>x\<close> and \<open>z\<close> are the payload's fields as \<open>parseInt\<close> and \<open>parseFloat\<close>
  see them, that is, converted to strings.
\<close>

definition submit_choice :: "string \<Rightarrow> string \<Rightarrow> string \<Rightarrow> server \<Rightarrow> emission list \<times> server" where
  "submit_choice sid x z s =
     (case findPlayerBySocketId (players s) sid of
        None \<Rightarrow> ([To_socket sid (Error_message ''You must join the lobby first.'')], s)
      | Some (k, player) \<Rightarrow>
          if gameState s \<noteq> round_input
          then ([To_socket sid (Error_message ''Submissions are not open right now.'')], s)
          else (case parseInt x of
                  None \<Rightarrow>
                    ([To_socket sid
                        (Error_message ''Sword (x) must be an integer between 1 and 10.'')], s)
                | Some parsedX \<Rightarrow>
                    if parsedX < 1 \<or> parsedX > 10
                    then ([To_socket sid
                             (Error_message ''Sword (x) must be an integer between 1 and 10.'')], s)
                    else (case parseFloat z of
                            Num parsedZ \<Rightarrow>
                              if parsedZ < 0 \<or> parsedZ > 100
                              then ([To_socket sid
                                       (Error_message
                                          ''Shield (z) must be a number between 0 and 100.'')], s)
                              else (let ps = map_set (players s) k
                                               (player\<lparr>currentRoundSubmission :=
                                                  Some \<lparr>sx = parsedX, sz = parsedZ\<rparr>\<rparr>)
                                    in ([To_socket sid
                                           (Submission_ack (currentRound s) parsedX parsedZ)],
                                        broadcastThrottled (s\<lparr>players := ps\<rparr>)))
                          | _ \<Rightarrow>
                              ([To_socket sid
                                  (Error_message
                                     ''Shield (z) must be a number between 0 and 100.'')], s))))"

text \<open>
  \<open>admin_action\<close>: \<open>ADMIN_PASSWORD\<close> is the configured secret (read from the environment
  at start-up), a parameter here. \<open>action\<close> and \<open>password\<close> are the payload's fields;
  the comparisons are strict, so a field that is not a string behaves like a string that
  equals neither the secret nor any of the action names.
\<close>

definition phase_error :: "string \<Rightarrow> phase \<Rightarrow> string" where
  \<open>phase_error what g = what @ '' from phase "'' @ phase_name g @ ''".''\<close>

definition unknown_action_error :: "string \<Rightarrow> string" where
  \<open>unknown_action_error action = ''Unknown admin action: "'' @ action @ ''".''\<close>

definition admin_action ::
  "string \<Rightarrow> string \<Rightarrow> string \<Rightarrow> string \<Rightarrow> server \<Rightarrow> emission list \<times> server" where
  "admin_action ADMIN_PASSWORD sid action password s =
     (if password \<noteq> ADMIN_PASSWORD
      then ([To_socket sid (Error_message ''Invalid admin password.'')], s)
      else if action = ''start_round'' then
        (if gameState s \<noteq> lobby \<and> gameState s \<noteq> round_resolution
         then ([To_socket sid (Error_message (phase_error ''Cannot start round'' (gameState s)))], s)
         else broadcastImmediate
                ((clearSubmissions s)\<lparr>gameState := round_input, lastRoundResults := []\<rparr>))
      else if action = ''resolve_round'' then
        (if gameState s \<noteq> round_input
         then ([To_socket sid (Error_message (phase_error ''Cannot resolve'' (gameState s)))], s)
         else broadcastImmediate ((resolveRound s)\<lparr>gameState := round_resolution\<rparr>))
      else if action = ''next_round'' then
        (if gameState s \<noteq> round_resolution
         then ([To_socket sid (Error_message (phase_error ''Cannot advance'' (gameState s)))], s)
         else if currentRound s \<ge> 3
         then broadcastImmediate (s\<lparr>gameState := final_standings\<rparr>)
         else broadcastImmediate
                ((clearSubmissions (s\<lparr>currentRound := currentRound s + 1\<rparr>))
                   \<lparr>gameState := round_input, lastRoundResults := []\<rparr>))
      else if action = ''reset_game'' then broadcastImmediate (resetGame s)
      else ([To_socket sid (Error_message (unknown_action_error action))], s))"

text \<open>\<open>disconnect\<close>; \<open>now\<close> is the value of \<open>Date.now()\<close>.\<close>

definition disconnect :: "string \<Rightarrow> int \<Rightarrow> server \<Rightarrow> emission list \<times> server" where
  "disconnect sid now s =
     (case findPlayerBySocketId (players s) sid of
        Some (k, player) \<Rightarrow>
          broadcastImmediate
            (s\<lparr>players := map_set (players s) k
                  (player\<lparr>connected := False, disconnectedAt := Some now, socketId := None\<rparr>)\<rparr>)
      | None \<Rightarrow> broadcastImmediate s)"

section \<open>The invariant of the players Map\<close>

text \<open>
  A JavaScript Map holds each key once, and every handler stores a player under the
  player's own username.
\<close>

definition wf_players :: "players_map \<Rightarrow> bool" where
  "wf_players ps \<longleftrightarrow> distinct (map fst ps) \<and> (\<forall>(k, d) \<in> set ps. username d = k)"

text \<open>The events the server reacts to, and a run of the server over a list of events.\<close>

datatype event =
    Join_lobby string "string option"
  | Submit_choice string string string
  | Admin_action string string string
  | Disconnect string int
  | Reaper_sweep int
  | Broadcast_timer_fires

fun handle :: "string \<Rightarrow> event \<Rightarrow> server \<Rightarrow> emission list \<times> server" where
  "handle ADMIN_PASSWORD (Join_lobby sid uname) s = join_lobby sid uname s"
| "handle ADMIN_PASSWORD (Submit_choice sid x z) s = submit_choice sid x z s"
| "handle ADMIN_PASSWORD (Admin_action sid action password) s =
     admin_action ADMIN_PASSWORD sid action password s"
| "handle ADMIN_PASSWORD (Disconnect sid now) s = disconnect sid now s"
| "handle ADMIN_PASSWORD (Reaper_sweep now) s = reaper now s"
| "handle ADMIN_PASSWORD Broadcast_timer_fires s = broadcast_timer_fires s"

fun run :: "string \<Rightarrow> event list \<Rightarrow> server \<Rightarrow> server" where
  "run ADMIN_PASSWORD [] s = s"
| "run ADMIN_PASSWORD (e # es) s = run ADMIN_PASSWORD es (snd (handle ADMIN_PASSWORD e s))"

section \<open>The scoring rule in the words of the specification\<close>

text \<open>
  \<open>spec_N\<close> is the number of submitters, \<open>spec_k x\<close> the number of submitters who chose
  \<open>x\<close>, and \<open>spec_roundScore\<close> the score \<open>x * (1 - Y / 100) - |Y - z| / 10\<close> with
  \<open>Y = (k / N) * 100\<close>.
\<close>

definition spec_N :: "players_map \<Rightarrow> nat" where
  "spec_N ps = length (filter (\<lambda>(k, d). currentRoundSubmission d \<noteq> None) ps)"

definition spec_k :: "players_map \<Rightarrow> int \<Rightarrow> nat" where
  "spec_k ps x =
     length (filter (\<lambda>(k, d). case currentRoundSubmission d of
                                  None \<Rightarrow> False
                                | Some sub \<Rightarrow> sx sub = x) ps)"

definition spec_roundScore :: "int \<Rightarrow> real \<Rightarrow> nat \<Rightarrow> nat \<Rightarrow> real" where
  "spec_roundScore x z k N =
     (let Y = (real k / real N) * 100
      in real_of_int x * (1 - Y / 100) - \<bar>Y - z\<bar> / 10)"

section \<open>Example states\<close>

definition example_player :: PlayerData where
  "example_player =
     \<lparr>socketId = Some ''sock-1'', username = ''Alice'', connected = True,
      disconnectedAt = None, cumulativeScore = 5 / 2,
      currentRoundSubmission = Some \<lparr>sx = 5, sz = 40\<rparr>\<rparr>"

definition example_server :: "phase \<Rightarrow> server" where
  "example_server g =
     \<lparr>players = [(''Alice'', example_player)], gameState = g, currentRound = 2,
      lastRoundResults = [], broadcastTimer = False\<rparr>"

definition reaper_example :: server where
  "reaper_example =
     \<lparr>players =
        [(''Alice'', example_player),
         (''Bob'', example_player\<lparr>username := ''Bob'', socketId := None, connected := False,
                                 disconnectedAt := Some 1000\<rparr>),
         (''Carol'', example_player\<lparr>username := ''Carol'', socketId := None, connected := False,
                                   disconnectedAt := Some 999\<rparr>)],
      gameState = round_input, currentRound = 1, lastRoundResults = [],
      broadcastTimer = True\<rparr>"

definition new_player :: "string \<Rightarrow> real \<Rightarrow> submission option \<Rightarrow> string \<times> PlayerData" where
  "new_player name score sub =
     (name, \<lparr>socketId = Some (''sock-'' @ name), username = name, connected = True,
             disconnectedAt = None, cumulativeScore = score,
             currentRoundSubmission = sub\<rparr>)"

definition scoring_example :: server where
  "scoring_example =
     \<lparr>players =
        [new_player ''Ann'' 1 (Some \<lparr>sx = 5, sz = 60\<rparr>),
         new_player ''Bob'' 2 (Some \<lparr>sx = 5, sz = 70\<rparr>),
         new_player ''Cy'' 3 (Some \<lparr>sx = 8, sz = 30\<rparr>),
         new_player ''Dee'' 4 None],
      gameState = round_input, currentRound = 1, lastRoundResults = [],
      broadcastTimer = False\<rparr>"

definition idle_example :: server where
  "idle_example =
     \<lparr>players = [new_player ''Ann'' 1 None, new_player ''Bob'' 2 None],
      gameState = round_input, currentRound = 1, lastRoundResults = [],
      broadcastTimer = False\<rparr>"



section \<open>Properties\<close>

subsection \<open>Broadcasting\<close>

lemma timer_off_id: "\<not> broadcastTimer s \<Longrightarrow> s\<lparr>broadcastTimer := False\<rparr> = s"
  by (cases s) simp

lemma snd_broadcastImmediate: "snd (broadcastImmediate s) = s\<lparr>broadcastTimer := False\<rparr>"
  by (simp add: broadcastImmediate_def Let_def)

lemma fst_broadcastImmediate:
  "fst (broadcastImmediate s) =
     [To_all (Game_state_update (buildGameStatePayload (s\<lparr>broadcastTimer := False\<rparr>)))]"
  by (cases "broadcastTimer s") (simp_all add: broadcastImmediate_def Let_def timer_off_id)

subsection \<open>Resetting the game\<close>

text \<open>
  Claim C3. An authorised \<open>reset_game\<close> action (the request carries the configured
  secret), from any state and so from any of the four phases, yields phase lobby, round 1
  and empty results; every player has score 0 and no pending submission; the players
  themselves, with their keys, identities and session fields, are the same and in the
  same order.
\<close>

theorem reset_game_yields_fresh_lobby:
  fixes s :: server and sid ADMIN_PASSWORD :: string
  defines "s' \<equiv> snd (admin_action ADMIN_PASSWORD sid ''reset_game'' ADMIN_PASSWORD s)"
  shows "gameState s' = lobby \<and> currentRound s' = 1 \<and> lastRoundResults s' = [] \<and>
         (\<forall>(k, d) \<in> set (players s'). cumulativeScore d = 0 \<and> currentRoundSubmission d = None) \<and>
         map fst (players s') = map fst (players s) \<and>
         map (\<lambda>(k, d). (username d, socketId d, connected d, disconnectedAt d)) (players s') =
         map (\<lambda>(k, d). (username d, socketId d, connected d, disconnectedAt d)) (players s)"
  unfolding s'_def
  by (auto simp: admin_action_def snd_broadcastImmediate resetGame_def)

theorem reset_game_yields_fresh_lobby_witness:
  "players (example_server final_standings) \<noteq> [] \<and>
   (let s' = snd (admin_action ''changeme'' ''sock-9'' ''reset_game'' ''changeme''
                    (example_server final_standings))
    in gameState s' = lobby \<and> currentRound s' = 1 \<and> lastRoundResults s' = [] \<and>
       map (\<lambda>(k, d). (k, cumulativeScore d, currentRoundSubmission d)) (players s') =
         [(''Alice'', 0, None)])"
  using reset_game_yields_fresh_lobby [of "''changeme''" "''sock-9''" "example_server final_standings"]
  by (simp add: example_server_def example_player_def Let_def admin_action_def resetGame_def
        snd_broadcastImmediate)

subsection \<open>Phase guards\<close>

text \<open>
  Claim C4. An authorised \<open>start_round\<close>, \<open>resolve_round\<close> or \<open>next_round\<close> attempted
  from a phase that is not legal for it is answered, to the caller only, with an error
  whose text names the current phase, and the whole server state (phase, round, results,
  every player, the pending broadcast timer) is returned unchanged. In particular a
  second \<open>resolve_round\<close> right after a successful one is rejected in this way.
  (\<open>reset_game\<close> is legal from every phase.)
\<close>

theorem illegal_phase_rejected_unchanged:
  fixes s :: server and sid pw :: string
  shows
  \<open>(gameState s \<noteq> lobby \<and> gameState s \<noteq> round_resolution \<longrightarrow>
      admin_action pw sid ''start_round'' pw s =
        ([To_socket sid (Error_message
            (''Cannot start round from phase "'' @ phase_name (gameState s) @ ''".''))], s)) \<and>
   (gameState s \<noteq> round_input \<longrightarrow>
      admin_action pw sid ''resolve_round'' pw s =
        ([To_socket sid (Error_message
            (''Cannot resolve from phase "'' @ phase_name (gameState s) @ ''".''))], s)) \<and>
   (gameState s \<noteq> round_resolution \<longrightarrow>
      admin_action pw sid ''next_round'' pw s =
        ([To_socket sid (Error_message
            (''Cannot advance from phase "'' @ phase_name (gameState s) @ ''".''))], s)) \<and>
   (gameState s = round_input \<longrightarrow>
      admin_action pw sid ''resolve_round'' pw
          (snd (admin_action pw sid ''resolve_round'' pw s)) =
        ([To_socket sid (Error_message ''Cannot resolve from phase "round_resolution".'')],
         snd (admin_action pw sid ''resolve_round'' pw s)))\<close>
  by (simp add: admin_action_def phase_error_def snd_broadcastImmediate)

theorem illegal_phase_rejected_unchanged_witness:
  \<open>gameState (example_server final_standings) \<noteq> lobby \<and>
   gameState (example_server final_standings) \<noteq> round_resolution \<and>
   gameState (example_server final_standings) \<noteq> round_input \<and>
   gameState (example_server round_input) = round_input \<and>
   admin_action ''changeme'' ''sock-9'' ''start_round'' ''changeme'' (example_server final_standings) =
     ([To_socket ''sock-9'' (Error_message ''Cannot start round from phase "final_standings".'')],
      example_server final_standings) \<and>
   admin_action ''changeme'' ''sock-9'' ''resolve_round'' ''changeme'' (example_server final_standings) =
     ([To_socket ''sock-9'' (Error_message ''Cannot resolve from phase "final_standings".'')],
      example_server final_standings) \<and>
   admin_action ''changeme'' ''sock-9'' ''next_round'' ''changeme'' (example_server final_standings) =
     ([To_socket ''sock-9'' (Error_message ''Cannot advance from phase "final_standings".'')],
      example_server final_standings) \<and>
   fst (admin_action ''changeme'' ''sock-9'' ''resolve_round'' ''changeme''
          (snd (admin_action ''changeme'' ''sock-9'' ''resolve_round'' ''changeme''
                  (example_server round_input)))) =
     [To_socket ''sock-9'' (Error_message ''Cannot resolve from phase "round_resolution".'')]\<close>
  using illegal_phase_rejected_unchanged [of "example_server final_standings" "''changeme''" "''sock-9''"]
        illegal_phase_rejected_unchanged [of "example_server round_input" "''changeme''" "''sock-9''"]
  by (simp add: example_server_def)

subsection \<open>Authorisation\<close>

text \<open>
  Claim C8, as stated, fails: the error for a wrong secret and the error for an unknown
  action are both \<open>error_message\<close> events, but their texts differ, so the caller can
  tell them apart.
\<close>

theorem wrong_secret_counterexample:
  \<open>fst (admin_action ''changeme'' ''sock-9'' ''bogus'' ''guess'' initial_server) =
     [To_socket ''sock-9'' (Error_message ''Invalid admin password.'')] \<and>
   fst (admin_action ''changeme'' ''sock-9'' ''bogus'' ''changeme'' initial_server) =
     [To_socket ''sock-9'' (Error_message ''Unknown admin action: "bogus".'')] \<and>
   fst (admin_action ''changeme'' ''sock-9'' ''bogus'' ''guess'' initial_server) \<noteq>
   fst (admin_action ''changeme'' ''sock-9'' ''bogus'' ''changeme'' initial_server)\<close>
  by (simp add: admin_action_def unknown_action_error_def)

text \<open>
  Claim C8, amended. A request with a wrong secret leaves the state untouched and the
  caller alone receives the fixed text "Invalid admin password.", whatever the action and
  the state are; an unknown action with the right secret also leaves the state untouched
  but is answered with a text that quotes the action.
\<close>

theorem wrong_secret_rejected:
  \<open>(password \<noteq> ADMIN_PASSWORD \<longrightarrow>
      admin_action ADMIN_PASSWORD sid action password s =
        ([To_socket sid (Error_message ''Invalid admin password.'')], s)) \<and>
   (action \<notin> {''start_round'', ''resolve_round'', ''next_round'', ''reset_game''} \<longrightarrow>
      admin_action ADMIN_PASSWORD sid action ADMIN_PASSWORD s =
        ([To_socket sid (Error_message (''Unknown admin action: "'' @ action @ ''".''))], s))\<close>
  by (simp add: admin_action_def unknown_action_error_def)

theorem wrong_secret_rejected_witness:
  \<open>''guess'' \<noteq> ''changeme'' \<and>
   ''bogus'' \<notin> {''start_round'', ''resolve_round'', ''next_round'', ''reset_game''} \<and>
   admin_action ''changeme'' ''sock-9'' ''reset_game'' ''guess'' (example_server round_input) =
     ([To_socket ''sock-9'' (Error_message ''Invalid admin password.'')],
      example_server round_input) \<and>
   admin_action ''changeme'' ''sock-9'' ''bogus'' ''changeme'' (example_server round_input) =
     ([To_socket ''sock-9'' (Error_message ''Unknown admin action: "bogus".'')],
      example_server round_input)\<close>
  using wrong_secret_rejected [of "''guess''" "''changeme''" "''sock-9''" "''reset_game''"
          "example_server round_input"]
        wrong_secret_rejected [of "''changeme''" "''changeme''" "''sock-9''" "''bogus''"
          "example_server round_input"]
  by simp

subsection \<open>Joining with a blank username\<close>

text \<open>
  Claim C6. The guard of \<open>join_lobby\<close> runs before the username is trimmed, so a username
  of white space only passes it: no error is sent, and an entry whose identity is the
  empty string is created.
\<close>

theorem join_lobby_blank_username:
  "snd (join_lobby ''sock-1'' (Some ''   '') initial_server) =
     initial_server\<lparr>players :=
       [([], \<lparr>socketId = Some ''sock-1'', username = [], connected = True,
               disconnectedAt = None, cumulativeScore = 0,
               currentRoundSubmission = None\<rparr>)]\<rparr> \<and>
   fst (join_lobby ''sock-1'' (Some ''   '') initial_server) \<noteq>
     [To_socket ''sock-1'' (Error_message ''A valid username is required.'')]"
  by (simp add: join_lobby_def cleanName_of_def trim_def substring0_def isWhiteSpace_def
        map_get_def initial_server_def snd_broadcastImmediate fst_broadcastImmediate)

subsection \<open>Resolution changes scores only\<close>

lemma fst_score_loop:
  "fst (score_loop f N ss ps) = map (score_submitter f N) ss"
  by (induction ss arbitrary: ps) (simp_all add: Let_def case_prod_unfold)

lemma snd_score_loop_Cons:
  "snd (score_loop f N (s # ss) ps) =
   snd (score_loop f N ss
          (accumulate ps (username (fst s)) (r_roundScore (score_submitter f N s))))"
  by (simp add: Let_def case_prod_unfold)

lemma map_set_score_only:
  "map_get ps k = Some pd \<Longrightarrow>
   map (\<lambda>(k, d). (k, d\<lparr>cumulativeScore := 0\<rparr>)) (map_set ps k (pd\<lparr>cumulativeScore := c\<rparr>)) =
   map (\<lambda>(k, d). (k, d\<lparr>cumulativeScore := 0\<rparr>)) ps"
  by (induction ps) (auto simp: map_get_def)

lemma accumulate_score_only:
  "map (\<lambda>(k, d). (k, d\<lparr>cumulativeScore := 0\<rparr>)) (accumulate ps u v) =
   map (\<lambda>(k, d). (k, d\<lparr>cumulativeScore := 0\<rparr>)) ps"
  by (simp add: accumulate_def map_set_score_only split: option.splits)

lemma score_loop_score_only:
  "map (\<lambda>(k, d). (k, d\<lparr>cumulativeScore := 0\<rparr>)) (snd (score_loop f N ss ps)) =
   map (\<lambda>(k, d). (k, d\<lparr>cumulativeScore := 0\<rparr>)) ps"
  by (induction ss arbitrary: ps) (simp_all add: snd_score_loop_Cons accumulate_score_only del: score_loop.simps(2))

lemma resolveRound_score_only:
  "map (\<lambda>(k, d). (k, d\<lparr>cumulativeScore := 0\<rparr>)) (players (resolveRound s)) =
   map (\<lambda>(k, d). (k, d\<lparr>cumulativeScore := 0\<rparr>)) (players s)"
proof -
  have "players (resolveRound s) = players s \<or>
        players (resolveRound s) =
          snd (score_loop (build_freqMap (\<lambda>x. 0) (submitters_of (players s)))
                 (length (submitters_of (players s))) (submitters_of (players s)) (players s))"
    by (simp add: resolveRound_def Let_def split: prod.splits)
  then show ?thesis
    by (auto simp: score_loop_score_only)
qed

lemma resolveRound_submissions:
  "map (\<lambda>(k, d). (k, currentRoundSubmission d)) (players (resolveRound s)) =
   map (\<lambda>(k, d). (k, currentRoundSubmission d)) (players s)"
proof -
  have "map (\<lambda>(k, d). (k, currentRoundSubmission d)) ps =
        map (\<lambda>(k, d). (k, currentRoundSubmission d))
          (map (\<lambda>(k, d). (k, d\<lparr>cumulativeScore := 0\<rparr>)) ps)" for ps :: players_map
    by (simp add: comp_def case_prod_unfold)
  then show ?thesis
    by (metis resolveRound_score_only)
qed

text \<open>
  Claim C2, as stated, fails: \<open>resolve_round\<close> does not clear the submissions. After a
  successful resolution the player of the example still holds the submission of the
  closed round.
\<close>

theorem resolve_round_keeps_submissions_counterexample:
  "gameState (snd (admin_action ''changeme'' ''sock-9'' ''resolve_round'' ''changeme''
                     (example_server round_input))) = round_resolution \<and>
   map (currentRoundSubmission \<circ> snd)
     (players (snd (admin_action ''changeme'' ''sock-9'' ''resolve_round'' ''changeme''
                      (example_server round_input)))) =
   [Some \<lparr>sx = 5, sz = 40\<rparr>]"
  by (simp add: admin_action_def snd_broadcastImmediate example_server_def example_player_def
        resolveRound_def accumulate_def map_get_def Let_def)

text \<open>
  Claim C2, amended. Submissions are cleared when a round starts: by a successful
  \<open>start_round\<close>, and by a successful \<open>next_round\<close> that opens another round. A
  successful \<open>resolve_round\<close> moves to the resolution phase and leaves every player's
  pending submission as it was.
\<close>

theorem submissions_cleared_at_round_start:
  fixes s :: server and sid pw :: string
  shows
  "(gameState s = lobby \<or> gameState s = round_resolution \<longrightarrow>
      (\<forall>(k, d) \<in> set (players (snd (admin_action pw sid ''start_round'' pw s))).
          currentRoundSubmission d = None)) \<and>
   (gameState s = round_resolution \<and> currentRound s < 3 \<longrightarrow>
      (\<forall>(k, d) \<in> set (players (snd (admin_action pw sid ''next_round'' pw s))).
          currentRoundSubmission d = None)) \<and>
   (gameState s = round_input \<longrightarrow>
      gameState (snd (admin_action pw sid ''resolve_round'' pw s)) = round_resolution \<and>
      map (\<lambda>(k, d). (k, currentRoundSubmission d))
        (players (snd (admin_action pw sid ''resolve_round'' pw s))) =
      map (\<lambda>(k, d). (k, currentRoundSubmission d)) (players s))"
  by (auto simp: admin_action_def snd_broadcastImmediate clearSubmissions_def
        resolveRound_submissions)

theorem submissions_cleared_at_round_start_witness:
  "gameState (example_server round_resolution) = round_resolution \<and>
   currentRound (example_server round_resolution) < 3 \<and>
   gameState (example_server round_input) = round_input \<and>
   map (currentRoundSubmission \<circ> snd)
     (players (snd (admin_action ''changeme'' ''sock-9'' ''start_round'' ''changeme''
                      (example_server round_resolution)))) = [None] \<and>
   map (currentRoundSubmission \<circ> snd)
     (players (snd (admin_action ''changeme'' ''sock-9'' ''next_round'' ''changeme''
                      (example_server round_resolution)))) = [None] \<and>
   map (\<lambda>(k, d). (k, currentRoundSubmission d))
     (players (snd (admin_action ''changeme'' ''sock-9'' ''resolve_round'' ''changeme''
                      (example_server round_input)))) =
   [(''Alice'', Some \<lparr>sx = 5, sz = 40\<rparr>)]"
  using submissions_cleared_at_round_start [of "example_server round_resolution" "''changeme''" "''sock-9''"]
        submissions_cleared_at_round_start [of "example_server round_input" "''changeme''" "''sock-9''"]
  by (simp add: example_server_def example_player_def admin_action_def snd_broadcastImmediate
        clearSubmissions_def)

subsection \<open>The reaper\<close>

lemma players_reaper:
  "players (snd (reaper now s)) = filter (\<lambda>(k, d). \<not> stale now d) (players s)"
  by (simp add: reaper_def Let_def snd_broadcastImmediate)

lemma reaper_purged:
  "length (players (snd (reaper now s))) < length (players s) \<Longrightarrow>
   reaper now s = broadcastImmediate (s\<lparr>players := filter (\<lambda>(k, d). \<not> stale now d) (players s)\<rparr>)"
  by (simp add: reaper_def Let_def snd_broadcastImmediate split: if_splits)

lemma players_upd_id: "s\<lparr>players := players s\<rparr> = s"
  by (cases s) simp

lemma reaper_none_purged:
  assumes "length (players (snd (reaper now s))) = length (players s)"
  shows "reaper now s = ([], s)"
proof -
  have len: "length (filter (\<lambda>(k, d). \<not> stale now d) (players s)) = length (players s)"
    using assms by (simp add: players_reaper)
  then have "filter (\<lambda>(k, d). \<not> stale now d) (players s) = players s"
    by (metis length_filter_less filter_True nat_neq_iff)
  then show ?thesis
    by (simp add: reaper_def Let_def players_upd_id)
qed

text \<open>
  Claim C7. In a sweep at time \<open>now\<close>: a connected player is never removed; a
  disconnected player whose \<open>disconnectedAt\<close> is the timestamp \<open>t\<close> is removed if and
  only if \<open>now - t\<close> is strictly greater than the grace duration, so not when it is
  exactly the grace duration; nobody is added; when at least one player was removed the
  sweep emits one immediate broadcast of the new state, and when nobody was removed it
  emits nothing and changes nothing. The timestamp is taken to be non-zero: the sweep
  tests \<open>disconnectedAt\<close> for truthiness, which holds for every value of \<open>Date.now()\<close>
  other than the epoch instant 0.
\<close>

theorem reaper_purges_past_grace_only:
  fixes now :: int and s :: server
  defines "s' \<equiv> snd (reaper now s)"
  shows
  "(\<forall>(k, d) \<in> set (players s). connected d \<longrightarrow> (k, d) \<in> set (players s')) \<and>
   (\<forall>(k, d) \<in> set (players s). \<forall>t.
       \<not> connected d \<and> disconnectedAt d = Some t \<and> t \<noteq> 0 \<longrightarrow>
         ((k, d) \<notin> set (players s') \<longleftrightarrow> now - t > RECONNECT_GRACE_MS)) \<and>
   set (players s') \<subseteq> set (players s) \<and>
   (length (players s') < length (players s) \<longrightarrow>
      fst (reaper now s) = [To_all (Game_state_update (buildGameStatePayload s'))]) \<and>
   (length (players s') = length (players s) \<longrightarrow> reaper now s = ([], s))"
proof -
  have ps: "players s' = filter (\<lambda>(k, d). \<not> stale now d) (players s)"
    by (simp add: s'_def players_reaper)
  have a: "\<forall>(k, d) \<in> set (players s). connected d \<longrightarrow> (k, d) \<in> set (players s')"
    by (auto simp: ps stale_def)
  have b: "\<forall>(k, d) \<in> set (players s). \<forall>t.
       \<not> connected d \<and> disconnectedAt d = Some t \<and> t \<noteq> 0 \<longrightarrow>
         ((k, d) \<notin> set (players s') \<longleftrightarrow> now - t > RECONNECT_GRACE_MS)"
    by (auto simp: ps stale_def)
  have c: "set (players s') \<subseteq> set (players s)"
    by (auto simp: ps)
  have d: "fst (reaper now s) = [To_all (Game_state_update (buildGameStatePayload s'))]"
    if "length (players s') < length (players s)"
  proof -
    have "reaper now s =
            broadcastImmediate (s\<lparr>players := filter (\<lambda>(k, d). \<not> stale now d) (players s)\<rparr>)"
      using that unfolding s'_def by (rule reaper_purged)
    then show ?thesis
      by (simp add: s'_def fst_broadcastImmediate snd_broadcastImmediate)
  qed
  have e: "reaper now s = ([], s)" if "length (players s') = length (players s)"
    using that unfolding s'_def by (rule reaper_none_purged)
  from a b c d e show ?thesis by blast
qed

theorem reaper_purges_past_grace_only_witness:
  "map (\<lambda>(k, d). (k, connected d, disconnectedAt d)) (players reaper_example) =
     [(''Alice'', True, None), (''Bob'', False, Some 1000), (''Carol'', False, Some 999)] \<and>
   (1000 + RECONNECT_GRACE_MS) - 1000 = RECONNECT_GRACE_MS \<and>
   (1000 + RECONNECT_GRACE_MS) - 999 > RECONNECT_GRACE_MS \<and>
   map fst (players (snd (reaper (1000 + RECONNECT_GRACE_MS) reaper_example))) =
     [''Alice'', ''Bob''] \<and>
   fst (reaper (1000 + RECONNECT_GRACE_MS) reaper_example) =
     [To_all (Game_state_update
        (buildGameStatePayload (snd (reaper (1000 + RECONNECT_GRACE_MS) reaper_example))))]"
  using reaper_purges_past_grace_only [of reaper_example "1000 + RECONNECT_GRACE_MS"]
  by (simp add: players_reaper reaper_example_def example_player_def stale_def
        RECONNECT_GRACE_MS_def)

subsection \<open>Joining and reconnecting\<close>

lemma map_of_map_set: "map_of (map_set ps k v) = (map_of ps)(k \<mapsto> v)"
  by (induction ps) (auto simp: fun_eq_iff)

lemma map_get_map_set: "map_get (map_set ps k v) k' = (if k' = k then Some v else map_get ps k')"
  by (simp add: map_get_def map_of_map_set)

lemma map_fst_map_set_present:
  "map_get ps k = Some d \<Longrightarrow> map fst (map_set ps k v) = map fst ps"
  by (induction ps) (auto simp: map_get_def split: if_splits)

lemma map_fst_map_set_absent:
  "map_get ps k = None \<Longrightarrow> map fst (map_set ps k v) = map fst ps @ [k]"
  by (induction ps) (auto simp: map_get_def split: if_splits)

lemma players_join_lobby:
  "str \<noteq> [] \<Longrightarrow>
   players (snd (join_lobby sid (Some str) s)) =
     (case map_get (players s) (cleanName_of str) of
        Some existing \<Rightarrow>
          map_set (players s) (cleanName_of str)
            (existing\<lparr>socketId := Some sid, connected := True, disconnectedAt := None\<rparr>)
      | None \<Rightarrow>
          map_set (players s) (cleanName_of str)
            \<lparr>socketId = Some sid, username = cleanName_of str, connected = True,
             disconnectedAt = None, cumulativeScore = 0, currentRoundSubmission = None\<rparr>)"
  by (simp add: join_lobby_def Let_def snd_broadcastImmediate split: option.splits)

text \<open>
  Claim C10. Two raw usernames accepted by the guard (non-empty strings) whose trimmed
  forms have the same first 20 characters are mapped to one entry: after the first join
  the directory has an entry under that key, and the second join creates no entry but
  re-attaches that one to the new socket, marks it connected and clears
  \<open>disconnectedAt\<close>, keeping its score and every other field.
\<close>

theorem colliding_usernames_share_one_player:
  fixes s :: server and u1 u2 sid1 sid2 :: string
  defines "s1 \<equiv> snd (join_lobby sid1 (Some u1) s)"
  defines "s2 \<equiv> snd (join_lobby sid2 (Some u2) s1)"
  assumes "u1 \<noteq> []" and "u2 \<noteq> []"
    and "take 20 (trim u1) = take 20 (trim u2)"
  shows "\<exists>d. map_get (players s1) (take 20 (trim u1)) = Some d \<and>
              players s2 =
                map_set (players s1) (take 20 (trim u1))
                  (d\<lparr>socketId := Some sid2, connected := True, disconnectedAt := None\<rparr>) \<and>
              map_get (players s2) (take 20 (trim u2)) =
                Some (d\<lparr>socketId := Some sid2, connected := True, disconnectedAt := None\<rparr>) \<and>
              map fst (players s2) = map fst (players s1)"
proof -
  let ?c = "cleanName_of u1"
  have c: "cleanName_of u2 = ?c" "take 20 (trim u1) = ?c" "take 20 (trim u2) = ?c"
    using assms(5) by (simp_all add: cleanName_of_def substring0_def)
  have "\<exists>d. map_get (players s1) ?c = Some d"
    using assms(3)
    by (cases "map_get (players s) ?c") (simp_all add: s1_def players_join_lobby map_get_map_set)
  then obtain d where d: "map_get (players s1) ?c = Some d" ..
  have p2: "players s2 =
              map_set (players s1) ?c
                (d\<lparr>socketId := Some sid2, connected := True, disconnectedAt := None\<rparr>)"
    using assms(4) d by (simp add: s2_def players_join_lobby c)
  show ?thesis
    using d p2 by (simp add: c map_get_map_set map_fst_map_set_present)
qed

theorem colliding_usernames_share_one_player_witness:
  "''  Alexander_the_Great_of_Macedon'' \<noteq> [] \<and> ''Alexander_the_Great_II'' \<noteq> [] \<and>
   ''  Alexander_the_Great_of_Macedon'' \<noteq> ''Alexander_the_Great_II'' \<and>
   take 20 (trim ''  Alexander_the_Great_of_Macedon'') = take 20 (trim ''Alexander_the_Great_II'') \<and>
   map (\<lambda>(k, d). (k, socketId d, cumulativeScore d))
     (players (snd (join_lobby ''sock-1'' (Some ''  Alexander_the_Great_of_Macedon'')
                      initial_server))) =
     [(''Alexander_the_Great_'', Some ''sock-1'', 0)] \<and>
   map (\<lambda>(k, d). (k, socketId d, cumulativeScore d))
     (players (snd (join_lobby ''sock-2'' (Some ''Alexander_the_Great_II'')
                 (snd (join_lobby ''sock-1'' (Some ''  Alexander_the_Great_of_Macedon'')
                         initial_server))))) =
     [(''Alexander_the_Great_'', Some ''sock-2'', 0)]"
  using colliding_usernames_share_one_player
          [of "''  Alexander_the_Great_of_Macedon''" "''Alexander_the_Great_II''"
              "''sock-1''" initial_server "''sock-2''"]
  by (simp add: players_join_lobby cleanName_of_def substring0_def trim_def isWhiteSpace_def
        map_get_def initial_server_def)

subsection \<open>Submitting a choice\<close>





lemma broadcastThrottled_fields:
  "players (broadcastThrottled s) = players s"
  "gameState (broadcastThrottled s) = gameState s"
  "currentRound (broadcastThrottled s) = currentRound s"
  by (simp_all add: broadcastThrottled_def)







subsection \<open>The invariant holds in every reachable state\<close>

lemma set_map_set_subset: "set (map_set ps k v) \<subseteq> insert (k, v) (set ps)"
  by (induction ps) (auto split: if_splits)

lemma wf_players_map_set:
  assumes "wf_players ps" and "username v = k"
  shows "wf_players (map_set ps k v)"
proof -
  have "distinct (map fst (map_set ps k v))"
  proof (cases "map_get ps k")
    case None
    then have "k \<notin> set (map fst ps)"
      by (simp add: map_get_def map_of_eq_None_iff)
    with assms(1) None show ?thesis
      by (simp add: map_fst_map_set_absent wf_players_def)
  next
    case (Some d)
    with assms(1) show ?thesis
      by (simp add: map_fst_map_set_present wf_players_def)
  qed
  moreover have "\<forall>(k', d') \<in> set (map_set ps k v). username d' = k'"
    using assms set_map_set_subset [of ps k v] by (auto simp: wf_players_def)
  ultimately show ?thesis
    by (simp add: wf_players_def)
qed

lemma wf_players_filter: "wf_players ps \<Longrightarrow> wf_players (filter P ps)"
  by (auto simp: wf_players_def distinct_map_filter)

lemma wf_players_cong:
  assumes "map (\<lambda>(k, d). (k, username d)) ps' = map (\<lambda>(k, d). (k, username d)) ps"
  shows "wf_players ps' \<longleftrightarrow> wf_players ps"
proof -
  have "wf_players qs \<longleftrightarrow>
          distinct (map fst (map (\<lambda>(k, d). (k, username d)) qs)) \<and>
          (\<forall>(k, u) \<in> set (map (\<lambda>(k, d). (k, username d)) qs). u = k)" for qs
    by (auto simp: wf_players_def comp_def case_prod_unfold)
  from this [of ps'] this [of ps] assms show ?thesis by (simp only:)
qed

lemma usernames_of_score_only:
  "map (\<lambda>(k, d). (k, username d)) ps =
   map (\<lambda>(k, d). (k, username d)) (map (\<lambda>(k, d). (k, d\<lparr>cumulativeScore := 0\<rparr>)) ps)"
  by (simp add: comp_def case_prod_unfold)

lemma wf_players_resolveRound:
  "wf_players (players s) \<Longrightarrow> wf_players (players (resolveRound s))"
  using wf_players_cong [of "players (resolveRound s)" "players s"]
  by (metis usernames_of_score_only resolveRound_score_only)

lemma findPlayerBySocketId_mem:
  "findPlayerBySocketId ps sid = Some (k, d) \<Longrightarrow> (k, d) \<in> set ps"
  by (induction ps) (auto split: if_splits)

lemma wf_players_update_found:
  assumes "wf_players ps" and "findPlayerBySocketId ps sid = Some (k, d)"
    and "username d' = username d"
  shows "wf_players (map_set ps k d')"
proof -
  from assms(2) have "(k, d) \<in> set ps" by (rule findPlayerBySocketId_mem)
  with assms(1) have "username d = k" by (auto simp: wf_players_def)
  with assms show ?thesis by (simp add: wf_players_map_set)
qed

lemma wf_players_join_lobby:
  assumes "wf_players (players s)"
  shows "wf_players (players (snd (join_lobby sid uname s)))"
proof (cases uname)
  case None
  with assms show ?thesis by (simp add: join_lobby_def)
next
  case (Some str)
  show ?thesis
  proof (cases "str = []")
    case True
    with Some assms show ?thesis by (simp add: join_lobby_def)
  next
    case False
    show ?thesis
    proof (cases "map_get (players s) (cleanName_of str)")
      case None
      with assms Some False show ?thesis
        by (simp add: players_join_lobby wf_players_map_set)
    next
      case (Some existing)
      then have "(cleanName_of str, existing) \<in> set (players s)"
        by (simp add: map_get_def map_of_SomeD)
      with assms have "username existing = cleanName_of str"
        by (auto simp: wf_players_def)
      with assms Some \<open>uname = Some str\<close> False show ?thesis
        by (simp add: players_join_lobby wf_players_map_set)
    qed
  qed
qed

lemma wf_players_submit_choice:
  assumes "wf_players (players s)"
  shows "wf_players (players (snd (submit_choice sid x z s)))"
proof (cases "findPlayerBySocketId (players s) sid")
  case None
  with assms show ?thesis by (simp add: submit_choice_def)
next
  case (Some kd)
  obtain k d where kd: "kd = (k, d)" by (cases kd)
  have upd: "wf_players (map_set (players s) k (d\<lparr>currentRoundSubmission := v\<rparr>))" for v
    using assms Some kd by (auto intro: wf_players_update_found)
  show ?thesis
    using assms Some kd upd
    by (auto simp: submit_choice_def Let_def broadcastThrottled_fields
          split: option.splits jsnum.splits)
qed

lemma wf_players_admin_action:
  assumes "wf_players (players s)"
  shows "wf_players (players (snd (admin_action pw sid action password s)))"
proof -
  have clear: "wf_players (players (clearSubmissions t))" if "wf_players (players t)" for t
    using that wf_players_cong [of "players (clearSubmissions t)" "players t"]
    by (simp add: clearSubmissions_def comp_def case_prod_unfold)
  have reset: "wf_players (players (resetGame s))"
    using assms wf_players_cong [of "players (resetGame s)" "players s"]
    by (simp add: resetGame_def comp_def case_prod_unfold)
  have clear': "wf_players (players (clearSubmissions (s\<lparr>currentRound := r\<rparr>)))" for r
    using assms by (intro clear) simp
  show ?thesis
    using assms clear [OF assms] clear' reset wf_players_resolveRound [OF assms]
    by (simp add: admin_action_def snd_broadcastImmediate)
qed

lemma wf_players_disconnect:
  assumes "wf_players (players s)"
  shows "wf_players (players (snd (disconnect sid now s)))"
proof (cases "findPlayerBySocketId (players s) sid")
  case None
  with assms show ?thesis by (simp add: disconnect_def snd_broadcastImmediate)
next
  case (Some kd)
  obtain k d where kd: "kd = (k, d)" by (cases kd)
  have "wf_players (map_set (players s) k
          (d\<lparr>connected := False, disconnectedAt := Some now, socketId := None\<rparr>))"
    using assms Some kd by (auto intro: wf_players_update_found)
  with Some kd show ?thesis
    by (simp add: disconnect_def snd_broadcastImmediate)
qed

lemma wf_players_handle:
  assumes "wf_players (players s)"
  shows "wf_players (players (snd (handle pw e s)))"
proof (cases e)
  case (Join_lobby sid uname)
  with assms show ?thesis by (simp add: wf_players_join_lobby)
next
  case (Submit_choice sid x z)
  with assms show ?thesis by (simp add: wf_players_submit_choice)
next
  case (Admin_action sid action password)
  with assms show ?thesis by (simp add: wf_players_admin_action)
next
  case (Disconnect sid now)
  with assms show ?thesis by (simp add: wf_players_disconnect)
next
  case (Reaper_sweep now)
  with assms show ?thesis by (simp add: players_reaper wf_players_filter)
next
  case Broadcast_timer_fires
  with assms show ?thesis by (simp add: broadcast_timer_fires_def Let_def)
qed

lemma wf_players_run:
  "wf_players (players s) \<Longrightarrow> wf_players (players (run pw es s))"
  by (induction es arbitrary: s) (simp_all add: wf_players_handle)

lemma wf_players_reachable: "wf_players (players (run pw es initial_server))"
  by (rule wf_players_run) (simp add: wf_players_def initial_server_def)


subsection \<open>Resolving a round\<close>

lemma build_freqMap_count:
  "build_freqMap f ss x = f x + length (filter (\<lambda>(d, sub). sx sub = x) ss)"
  by (induction ss arbitrary: f) auto

lemma length_submitters_of: "length (submitters_of ps) = spec_N ps"
  by (induction ps) (auto simp: spec_N_def split: option.splits)

lemma count_submitters_of:
  "length (filter (\<lambda>(d, sub). sx sub = x) (submitters_of ps)) = spec_k ps x"
  by (induction ps) (simp_all add: spec_k_def split: option.splits prod.splits)

lemma freqMap_is_spec_k:
  "build_freqMap (\<lambda>x. 0) (submitters_of ps) x = spec_k ps x"
  by (simp add: build_freqMap_count count_submitters_of)

lemma r_roundScore_score_submitter:
  "r_roundScore (score_submitter f N (d, sub)) = spec_roundScore (sx sub) (sz sub) (f (sx sub)) N"
  by (simp add: score_submitter_def spec_roundScore_def Let_def)

lemma r_username_score_submitter:
  "r_username (score_submitter f N s) = username (fst s)"
  by (simp add: score_submitter_def Let_def)

lemma map_get_accumulate:
  "map_get (accumulate ps u v) u' =
     (if u' = u
      then map_option (\<lambda>pd. pd\<lparr>cumulativeScore := cumulativeScore pd + v\<rparr>) (map_get ps u)
      else map_get ps u')"
  by (cases "map_get ps u") (simp_all add: accumulate_def map_get_map_set)

text \<open>
  After the loop, an entry has gained the sum of the round scores of the submitters that
  carry its key as username.
\<close>

lemma map_get_score_loop:
  "map_get (snd (score_loop f N ss ps)) u =
     map_option
       (\<lambda>pd. pd\<lparr>cumulativeScore := cumulativeScore pd +
                 sum_list (map (\<lambda>s. r_roundScore (score_submitter f N s))
                             (filter (\<lambda>s. username (fst s) = u) ss))\<rparr>)
       (map_get ps u)"
proof (induction ss arbitrary: ps)
  case Nil
  show ?case by (cases "map_get ps u") simp_all
next
  case (Cons s ss)
  show ?case
  proof (cases "username (fst s) = u")
    case True
    then show ?thesis
      by (cases "map_get ps u")
         (simp_all add: snd_score_loop_Cons Cons.IH map_get_accumulate add.assoc
            del: score_loop.simps(2))
  next
    case False
    then have "u \<noteq> username (fst s)" by blast
    with False show ?thesis
      by (simp add: snd_score_loop_Cons Cons.IH map_get_accumulate del: score_loop.simps(2))
  qed
qed

lemma wf_players_map_get:
  "wf_players ps \<Longrightarrow> (u, d) \<in> set ps \<Longrightarrow> map_get ps u = Some d"
  by (simp add: wf_players_def map_get_def)

lemma submitters_of_username:
  "(d, sub) \<in> set (submitters_of ps) \<Longrightarrow>
   d \<in> snd ` set ps \<and> currentRoundSubmission d = Some sub"
  by (induction ps) (auto split: option.splits)

lemma wf_players_submitters:
  "wf_players ps \<Longrightarrow> (u, d) \<in> set ps \<Longrightarrow>
   filter (\<lambda>s. username (fst s) = u) (submitters_of ps) =
     (case currentRoundSubmission d of None \<Rightarrow> [] | Some sub \<Rightarrow> [(d, sub)])"
proof (induction ps)
  case Nil
  then show ?case by simp
next
  case (Cons p ps)
  obtain k0 d0 where p: "p = (k0, d0)" by (cases p)
  from Cons.prems(1) p have wf: "wf_players ps" and k0: "username d0 = k0"
    and fresh: "k0 \<notin> fst ` set ps"
    by (auto simp: wf_players_def)
  have none: "filter (\<lambda>s. username (fst s) = k0) (submitters_of ps) = []"
  proof -
    have "username (fst s) \<noteq> k0" if "s \<in> set (submitters_of ps)" for s
    proof -
      obtain d' sub' where s: "s = (d', sub')" by (cases s)
      with that have "d' \<in> snd ` set ps"
        using submitters_of_username by blast
      then obtain k' where "(k', d') \<in> set ps" by force
      moreover from this wf have "username d' = k'" by (auto simp: wf_players_def)
      ultimately show ?thesis using fresh s by force
    qed
    then show ?thesis by (simp add: filter_empty_conv)
  qed
  show ?case
  proof (cases "(u, d) = (k0, d0)")
    case True
    with p k0 none show ?thesis by (simp split: option.splits)
  next
    case False
    with Cons.prems(2) p have mem: "(u, d) \<in> set ps" by auto
    with fresh have "u \<noteq> k0" by force
    with Cons.IH [OF wf mem] p k0 show ?thesis by (simp split: option.splits)
  qed
qed

lemma resolveRound_no_submitters:
  assumes "spec_N (players s) = 0"
  shows "resolveRound s = s\<lparr>lastRoundResults := []\<rparr>"
proof -
  have "submitters_of (players s) = []"
    using assms length_submitters_of [of "players s"] by simp
  then show ?thesis
    by (simp add: resolveRound_def)
qed

lemma resolveRound_submitters:
  assumes "0 < spec_N (players s)"
  shows "lastRoundResults (resolveRound s) =
           map (score_submitter (spec_k (players s)) (spec_N (players s)))
             (submitters_of (players s))"
    and "players (resolveRound s) =
           snd (score_loop (spec_k (players s)) (spec_N (players s))
                  (submitters_of (players s)) (players s))"
proof -
  have f: "build_freqMap (\<lambda>x. 0) (submitters_of (players s)) = spec_k (players s)"
    by (rule ext) (rule freqMap_is_spec_k)
  have ne: "submitters_of (players s) \<noteq> []"
    using assms length_submitters_of [of "players s"] by auto
  have len: "length (submitters_of (players s)) = spec_N (players s)"
    by (rule length_submitters_of)
  show "lastRoundResults (resolveRound s) =
           map (score_submitter (spec_k (players s)) (spec_N (players s)))
             (submitters_of (players s))"
    using ne by (simp add: resolveRound_def len Let_def f case_prod_unfold fst_score_loop)
  show "players (resolveRound s) =
           snd (score_loop (spec_k (players s)) (spec_N (players s))
                  (submitters_of (players s)) (players s))"
    using ne by (simp add: resolveRound_def len Let_def f case_prod_unfold)
qed

text \<open>
  Claim C1. In a state whose players Map is well formed (which every reachable state is,
  by \<open>wf_players_reachable\<close>): if nobody has submitted, the result set is empty and no
  player changes. If at least one player has submitted, then every player holding the
  submission \<open>(x, z)\<close> has exactly one result, its round score is
  \<open>x * (1 - Y / 100) - |Y - z| / 10\<close> with \<open>Y = (k x / N) * 100\<close>, and the player's entry
  afterwards is the entry before with that round score added once to the cumulative
  score; a player without a submission has no result and an unchanged entry.
\<close>

theorem resolveRound_scores_each_submitter_once:
  assumes "wf_players (players s)"
  shows
  "(spec_N (players s) = 0 \<longrightarrow>
      lastRoundResults (resolveRound s) = [] \<and> players (resolveRound s) = players s) \<and>
   (1 \<le> spec_N (players s) \<longrightarrow>
      (\<forall>(u, d) \<in> set (players s).
         case currentRoundSubmission d of
           None \<Rightarrow>
             map_get (players (resolveRound s)) u = Some d \<and>
             filter (\<lambda>r. r_username r = u) (lastRoundResults (resolveRound s)) = []
         | Some sub \<Rightarrow>
             map_get (players (resolveRound s)) u =
               Some (d\<lparr>cumulativeScore := cumulativeScore d +
                         spec_roundScore (sx sub) (sz sub)
                           (spec_k (players s) (sx sub)) (spec_N (players s))\<rparr>) \<and>
             map r_roundScore
               (filter (\<lambda>r. r_username r = u) (lastRoundResults (resolveRound s))) =
               [spec_roundScore (sx sub) (sz sub)
                  (spec_k (players s) (sx sub)) (spec_N (players s))]))"
proof (intro conjI impI)
  assume "spec_N (players s) = 0"
  then show "lastRoundResults (resolveRound s) = []" "players (resolveRound s) = players s"
    by (simp_all add: resolveRound_no_submitters)
next
  assume "1 \<le> spec_N (players s)"
  then have pos: "0 < spec_N (players s)" by simp
  let ?f = "spec_k (players s)" and ?N = "spec_N (players s)"
  let ?ss = "submitters_of (players s)"
  show "\<forall>(u, d) \<in> set (players s).
         case currentRoundSubmission d of
           None \<Rightarrow>
             map_get (players (resolveRound s)) u = Some d \<and>
             filter (\<lambda>r. r_username r = u) (lastRoundResults (resolveRound s)) = []
         | Some sub \<Rightarrow>
             map_get (players (resolveRound s)) u =
               Some (d\<lparr>cumulativeScore := cumulativeScore d +
                         spec_roundScore (sx sub) (sz sub) (?f (sx sub)) ?N\<rparr>) \<and>
             map r_roundScore
               (filter (\<lambda>r. r_username r = u) (lastRoundResults (resolveRound s))) =
               [spec_roundScore (sx sub) (sz sub) (?f (sx sub)) ?N]"
  proof (clarify)
    fix u d
    assume mem: "(u, d) \<in> set (players s)"
    have get: "map_get (players s) u = Some d"
      using assms mem by (rule wf_players_map_get)
    have own: "filter (\<lambda>s. username (fst s) = u) ?ss =
                 (case currentRoundSubmission d of None \<Rightarrow> [] | Some sub \<Rightarrow> [(d, sub)])"
      using assms mem by (rule wf_players_submitters)
    have res: "filter (\<lambda>r. r_username r = u) (lastRoundResults (resolveRound s)) =
                 map (score_submitter ?f ?N) (filter (\<lambda>s. username (fst s) = u) ?ss)"
      by (simp add: resolveRound_submitters(1) [OF pos] filter_map comp_def
            r_username_score_submitter)
    have pl: "map_get (players (resolveRound s)) u =
                Some (d\<lparr>cumulativeScore := cumulativeScore d +
                   sum_list (map (\<lambda>s. r_roundScore (score_submitter ?f ?N s))
                               (filter (\<lambda>s. username (fst s) = u) ?ss))\<rparr>)"
      by (simp add: resolveRound_submitters(2) [OF pos] map_get_score_loop get)
    show "case currentRoundSubmission d of
           None \<Rightarrow>
             map_get (players (resolveRound s)) u = Some d \<and>
             filter (\<lambda>r. r_username r = u) (lastRoundResults (resolveRound s)) = []
         | Some sub \<Rightarrow>
             map_get (players (resolveRound s)) u =
               Some (d\<lparr>cumulativeScore := cumulativeScore d +
                         spec_roundScore (sx sub) (sz sub) (?f (sx sub)) ?N\<rparr>) \<and>
             map r_roundScore
               (filter (\<lambda>r. r_username r = u) (lastRoundResults (resolveRound s))) =
               [spec_roundScore (sx sub) (sz sub) (?f (sx sub)) ?N]"
    proof (cases "currentRoundSubmission d")
      case None
      then show ?thesis by (simp add: res pl own)
    next
      case (Some sub)
      then show ?thesis by (simp add: res pl own r_roundScore_score_submitter)
    qed
  qed
qed


theorem resolveRound_scores_each_submitter_once_witness:
  "wf_players (players scoring_example) \<and>
   spec_N (players scoring_example) = 3 \<and>
   spec_k (players scoring_example) 5 = 2 \<and>
   spec_k (players scoring_example) 8 = 1 \<and>
   spec_roundScore 5 60 2 3 = 1 \<and> spec_roundScore 5 70 2 3 = 4 / 3 \<and>
   spec_roundScore 8 30 1 3 = 5 \<and>
   map (\<lambda>(k, d). (k, cumulativeScore d)) (players scoring_example) =
     [(''Ann'', 1), (''Bob'', 2), (''Cy'', 3), (''Dee'', 4)] \<and>
   map (\<lambda>(k, d). (k, cumulativeScore d)) (players (resolveRound scoring_example)) =
     [(''Ann'', 2), (''Bob'', 10 / 3), (''Cy'', 8), (''Dee'', 4)] \<and>
   map (\<lambda>r. (r_username r, r_roundScore r)) (lastRoundResults (resolveRound scoring_example)) =
     [(''Ann'', 1), (''Bob'', 4 / 3), (''Cy'', 5)] \<and>
   wf_players (players idle_example) \<and>
   spec_N (players idle_example) = 0 \<and>
   lastRoundResults (resolveRound idle_example) = [] \<and>
   players (resolveRound idle_example) = players idle_example"
proof -
  have wf: "wf_players (players scoring_example)" "wf_players (players idle_example)"
    by (simp_all add: wf_players_def scoring_example_def idle_example_def new_player_def)
  have n: "spec_N (players scoring_example) = 3" "spec_k (players scoring_example) 5 = 2"
    "spec_k (players scoring_example) 8 = 1" "spec_N (players idle_example) = 0"
    by (simp_all add: spec_N_def spec_k_def scoring_example_def idle_example_def new_player_def)
  have sc: "spec_roundScore 5 60 2 3 = 1" "spec_roundScore 5 70 2 3 = 4 / 3"
    "spec_roundScore 8 30 1 3 = 5"
    by (simp_all add: spec_roundScore_def Let_def)
  have before: "map (\<lambda>(k, d). (k, cumulativeScore d)) (players scoring_example) =
     [(''Ann'', 1), (''Bob'', 2), (''Cy'', 3), (''Dee'', 4)]"
    by (simp add: scoring_example_def new_player_def)
  have idle: "lastRoundResults (resolveRound idle_example) = [] \<and>
              players (resolveRound idle_example) = players idle_example"
    using resolveRound_scores_each_submitter_once [OF wf(2)] n(4) by blast
  have run: "map (\<lambda>(k, d). (k, cumulativeScore d)) (players (resolveRound scoring_example)) =
     [(''Ann'', 2), (''Bob'', 10 / 3), (''Cy'', 8), (''Dee'', 4)]"
    "map (\<lambda>r. (r_username r, r_roundScore r)) (lastRoundResults (resolveRound scoring_example)) =
     [(''Ann'', 1), (''Bob'', 4 / 3), (''Cy'', 5)]"
    using resolveRound_scores_each_submitter_once [OF wf(1)]
    by (simp_all add: resolveRound_def scoring_example_def new_player_def score_submitter_def
          accumulate_def map_get_def Let_def)
  show ?thesis
    using wf n sc before idle run by (intro conjI) simp_all
qed

subsection \<open>The leaderboard\<close>





end
